theory Spec2Isabelle
  imports Main "HOL-Library.Sublist"
begin

section \<open>JavaScript values and strings\<close>

text \<open>
  A JavaScript value that is either a string or absent (\<open>undefined\<close>, \<open>null\<close>) is a
  \<open>string option\<close>. In a condition and on the left of \<open>||\<close> such a value counts when it is
  truthy: present and not the empty string. \<open>nonempty\<close> keeps exactly the truthy values, so
  \<open>a || b\<close> is \<open>case nonempty a of Some s \<Rightarrow> s | None \<Rightarrow> b\<close>.
\<close>

definition nonempty :: "string option \<Rightarrow> string option" where
  "nonempty v = (case v of None \<Rightarrow> None | Some s \<Rightarrow> (if s = [] then None else Some s))"

text \<open>A template literal prints an absent value as the text \<open>undefined\<close>.\<close>

definition js_str :: "string option \<Rightarrow> string" where
  "js_str v = (case v of None \<Rightarrow> ''undefined'' | Some s \<Rightarrow> s)"

text \<open>
  \<open>contains pat s\<close>: the literal \<open>pat\<close> occurs in \<open>s\<close>; this is what a regular expression
  made of one literal tests.
\<close>

fun contains :: "string \<Rightarrow> string \<Rightarrow> bool" where
  "contains pat [] = (pat = [])"
| "contains pat (c # cs) = (prefix pat (c # cs) \<or> contains pat cs)"

text \<open>Lower case of an ASCII letter, for a regular expression with the flag \<open>i\<close>.\<close>

definition lower :: "char \<Rightarrow> char" where
  "lower c =
     (case map_of (zip ''ABCDEFGHIJKLMNOPQRSTUVWXYZ'' ''abcdefghijklmnopqrstuvwxyz'') c of
        Some l \<Rightarrow> l
      | None \<Rightarrow> c)"

text \<open>
  The line terminators that \<open>.\<close> of a regular expression does not match. A \<open>string\<close>
  here is a list of 8-bit characters, so of JavaScript's four line terminators only line
  feed and carriage return occur.
\<close>

definition line_terminator :: "char \<Rightarrow> bool" where
  "line_terminator c = (c = CHR 0x0A \<or> c = CHR 0x0D)"

section \<open>The npm plugin: data\<close>

definition REGISTRY_TIMEOUT :: nat where
  "REGISTRY_TIMEOUT = 10000"

definition DEFAULT_TAG :: string where
  "DEFAULT_TAG = ''latest''"

definition DEFAULT_TAG_PRERELEASE :: string where
  "DEFAULT_TAG_PRERELEASE = ''next''"

definition NPM_DEFAULT_REGISTRY :: string where
  "NPM_DEFAULT_REGISTRY = ''https://registry.npmjs.org''"

text \<open>
  The options of the plugin (\<open>this.options\<close>). \<open>opt_publish\<close> is \<open>False\<close> exactly when
  the option \<open>publish\<close> is the value \<open>false\<close>; \<open>opt_skipChecks\<close> and \<open>opt_ignoreVersion\<close>
  are the truth values of those options.
\<close>

record npm_options =
  opt_publish :: bool
  opt_skipChecks :: bool
  opt_ignoreVersion :: bool
  opt_tag :: "string option"
  opt_otp :: "string option"
  opt_publishPath :: "string option"
  opt_access :: "string option"

text \<open>The fields \<open>init\<close> reads from \<open>package.json\<close>; any of them may be missing there.\<close>

record manifest =
  man_name :: "string option"
  man_version :: "string option"
  man_private :: bool
  man_registry :: "string option"

text \<open>
  The plugin's slice of the context store. \<open>ctx_registry\<close> is \<open>publishConfig.registry\<close>.
\<close>

record npm_context =
  ctx_name :: "string option"
  ctx_latestVersion :: "string option"
  ctx_private :: bool
  ctx_registry :: "string option"
  ctx_version :: "string option"
  ctx_tag :: "string option"
  ctx_isNewPackage :: bool

record global_config =
  isCI :: bool
  isDryRun :: bool

text \<open>What \<open>parseVersion\<close> returns, as far as the plugin reads it.\<close>

record parsed_version =
  isPreRelease :: bool
  preReleaseId :: "string option"

text \<open>
  The state a run of the plugin changes: its flag \<open>isReleased\<close>, its context, the exec
  log (every command handed to the shell executor, run or not, in call order), the
  commands the shell really ran, and the warnings logged.
\<close>

record world =
  isReleased :: bool
  ctx :: npm_context
  exec_log :: "string list"
  ran :: "string list"
  warnings :: "string list"

text \<open>
  What the plugin calls and this file does not define: the operating system's shell
  (\<open>sh history command\<close> is the outcome of running \<open>command\<close> after the commands of
  \<open>history\<close>: \<open>Inr\<close> the captured output, \<open>Inl\<close> the text of the error the promise is
  rejected with), \<open>parseVersion\<close> of the utilities, \<open>semver.eq\<close> (\<open>None\<close> when it
  throws on an invalid version) and \<open>Object.keys (JSON.parse output)\<close> (\<open>None\<close> when that
  throws).
\<close>

record deps =
  sh :: "string list \<Rightarrow> string \<Rightarrow> string + string"
  parseVersion :: "string option \<Rightarrow> parsed_version"
  semver_eq :: "string option \<Rightarrow> string \<Rightarrow> bool option"
  json_keys :: "string \<Rightarrow> string list option"

text \<open>
  The errors a phase of the plugin can end with: the two classes of the errors module
  that \<open>init\<close> throws after a failed validation, the rejection of a shell command passed
  on unchanged, the \<open>TypeError\<close> of reading a property of an absent value or of
  \<open>semver.eq\<close> on an invalid version, and the rejection of \<open>rejectAfter ms\<close>.
  Modelled from the spec: \<open>rejectAfter\<close> is defined in the utilities, which are not among
  the sources; by the spec what it rejects with is a timeout error of its own, distinct
  from the errors of the individual validations, and \<open>RejectedAfter ms\<close> is that error.
\<close>

datatype npm_error =
  NpmTimeoutError nat
  | NpmAuthError
  | RejectedAfter nat
  | ExecError string
  | TypeError

section \<open>The npm plugin: operations\<close>

definition warn :: "string \<Rightarrow> world \<Rightarrow> world" where
  "warn msg w = w\<lparr>warnings := warnings w @ [msg]\<rparr>"

text \<open>
  Modelled from the spec: the shell executor behind \<open>this.exec\<close> (the plugin base class and
  the shell are not among the sources). Every invocation is appended to the exec log. In
  dry-run mode a command marked as mutating is not run and a placeholder result is
  returned; any other command is run and its outcome returned. The mark is the option
  \<open>write\<close>, which the plugin sets to \<open>false\<close> for the commands it declares read-only
  (\<open>const options = { write: false }\<close>) and leaves at its default otherwise; \<open>mutating\<close>
  below is that option.
\<close>

definition exec :: "deps \<Rightarrow> global_config \<Rightarrow> string \<Rightarrow> bool \<Rightarrow> world \<Rightarrow> (string + string) \<times> world" where
  "exec d g command mutating w =
     (if isDryRun g \<and> mutating
      then (Inr [], w\<lparr>exec_log := exec_log w @ [command]\<rparr>)
      else (sh d (ran w) command,
            w\<lparr>exec_log := exec_log w @ [command], ran := ran w @ [command]\<rparr>))"

definition getName :: "world \<Rightarrow> string option" where
  "getName w = ctx_name (ctx w)"

definition getLatestVersion :: "npm_options \<Rightarrow> world \<Rightarrow> string option" where
  "getLatestVersion opts w = (if opt_ignoreVersion opts then None else ctx_latestVersion (ctx w))"

definition getRegistry :: "world \<Rightarrow> string" where
  "getRegistry w = (case nonempty (ctx_registry (ctx w)) of Some r \<Rightarrow> r | None \<Rightarrow> NPM_DEFAULT_REGISTRY)"

definition registryArg :: "world \<Rightarrow> string" where
  "registryArg w =
     (let registry = getRegistry w
      in if registry \<noteq> NPM_DEFAULT_REGISTRY then '' --registry '' @ registry else [])"

text \<open>\<open>getRegistryPreReleaseTags\<close>: the keys of the registry's dist-tags other than the default tag.\<close>

definition getRegistryPreReleaseTags :: "deps \<Rightarrow> global_config \<Rightarrow> world \<Rightarrow> string list \<times> world" where
  "getRegistryPreReleaseTags d g w =
     (case exec d g (''npm view '' @ js_str (getName w) @ '' dist-tags --json'') False w of
        (Inr output, w1) \<Rightarrow>
          (case json_keys d output of
             Some tags \<Rightarrow> (filter (\<lambda>t. t \<noteq> DEFAULT_TAG) tags, w1)
           | None \<Rightarrow> ([], w1))
      | (Inl err, w1) \<Rightarrow> ([], w1))"

definition guessPreReleaseTag :: "deps \<Rightarrow> global_config \<Rightarrow> world \<Rightarrow> string \<times> world" where
  "guessPreReleaseTag d g w =
     (case getRegistryPreReleaseTags d g w of
        (tags, w1) \<Rightarrow>
          (case nonempty (case tags of [] \<Rightarrow> None | t # ts \<Rightarrow> Some t) of
             Some t \<Rightarrow> (t, w1)
           | None \<Rightarrow>
               (DEFAULT_TAG_PRERELEASE,
                warn (''Unable to get pre-release tag(s) from npm registry. Using \"''
                        @ DEFAULT_TAG_PRERELEASE @ ''\".'') w1)))"

definition resolveTag :: "deps \<Rightarrow> npm_options \<Rightarrow> global_config \<Rightarrow> string option \<Rightarrow> world \<Rightarrow> string \<times> world" where
  "resolveTag d opts g version w =
     (let p = parseVersion d version
      in if \<not> isPreRelease p then (DEFAULT_TAG, w)
         else (case nonempty (opt_tag opts) of
                 Some t \<Rightarrow> (t, w)
               | None \<Rightarrow>
                   (case nonempty (preReleaseId p) of
                      Some i \<Rightarrow> (i, w)
                    | None \<Rightarrow> guessPreReleaseTag d g w)))"

text \<open>
  \<open>bump\<close>: the tag is the configured one when that is truthy, whatever the version, and
  \<open>resolveTag\<close>'s otherwise; then \<open>npm version\<close> runs as the task of the spinner, and its
  rejection is caught (with a warning when it says the version did not change). The
  spinner is not among the sources; by the spec it runs the task under a progress display.
\<close>

definition version_not_changed :: "string \<Rightarrow> bool" where
  "version_not_changed err = contains ''version not changed'' (map lower err)"

definition bump :: "deps \<Rightarrow> npm_options \<Rightarrow> global_config \<Rightarrow> string \<Rightarrow> world \<Rightarrow> world" where
  "bump d opts g version w =
     (case (case nonempty (opt_tag opts) of
              Some t \<Rightarrow> (t, w)
            | None \<Rightarrow> resolveTag d opts g (Some version) w) of
        (tag, w1) \<Rightarrow>
          (case exec d g (''npm version '' @ version @ '' --no-git-tag-version'') True
                  (w1\<lparr>ctx := (ctx w1)\<lparr>ctx_version := Some version, ctx_tag := Some tag\<rparr>\<rparr>) of
             (Inr out, w2) \<Rightarrow> w2
           | (Inl err, w2) \<Rightarrow>
               (if version_not_changed err
                then warn (''Did not update version in package.json, etc. (already at ''
                             @ version @ '').'') w2
                else w2)))"

text \<open>
  The two regular expressions that recognise a registry without the command:
  \<open>/code E40[04]/\<close> for \<open>npm whoami\<close>, and
  \<open>/code E40[04]|404.*(ping not found|No content for path)/\<close> for \<open>npm ping\<close>. In the
  second alternative \<open>.*\<close> stays on one line, so one of the two texts has to follow a
  \<open>404\<close> before the line ends.
\<close>

definition code_E40x :: "string \<Rightarrow> bool" where
  "code_E40x err = (contains ''code E400'' err \<or> contains ''code E404'' err)"

fun not_found_404 :: "string \<Rightarrow> bool" where
  "not_found_404 [] = False"
| "not_found_404 (c # cs) =
     ((prefix ''404'' (c # cs) \<and>
       (let line = takeWhile (\<lambda>x. \<not> line_terminator x) (drop 3 (c # cs))
        in contains ''ping not found'' line \<or> contains ''No content for path'' line))
      \<or> not_found_404 cs)"

definition ping_unsupported :: "string \<Rightarrow> bool" where
  "ping_unsupported err = (code_E40x err \<or> not_found_404 err)"

definition isRegistryUp :: "deps \<Rightarrow> global_config \<Rightarrow> world \<Rightarrow> bool \<times> world" where
  "isRegistryUp d g w =
     (case exec d g (''npm ping'' @ registryArg w) True w of
        (Inr out, w1) \<Rightarrow> (True, w1)
      | (Inl err, w1) \<Rightarrow>
          (if ping_unsupported err
           then (True, warn ''Ignoring unsupported `npm ping` command response.'' w1)
           else (False, w1)))"

definition isAuthenticated :: "deps \<Rightarrow> global_config \<Rightarrow> world \<Rightarrow> bool \<times> world" where
  "isAuthenticated d g w =
     (case exec d g (''npm whoami'' @ registryArg w) True w of
        (Inr out, w1) \<Rightarrow> (True, w1)
      | (Inl err, w1) \<Rightarrow>
          (if code_E40x err
           then (True, warn ''Ignoring unsupported `npm whoami` command response.'' w1)
           else (False, w1)))"

definition getLatestRegistryVersion :: "deps \<Rightarrow> npm_options \<Rightarrow> global_config \<Rightarrow> world \<Rightarrow> string option \<times> world" where
  "getLatestRegistryVersion d opts g w =
     (case resolveTag d opts g (getLatestVersion opts w) w of
        (tag, w1) \<Rightarrow>
          (case exec d g (''npm show '' @ js_str (getName w) @ ''@'' @ tag @ '' version'' @ registryArg w)
                  False w1 of
             (Inr out, w2) \<Rightarrow> (Some out, w2)
           | (Inl err, w2) \<Rightarrow> (None, w2)))"

text \<open>
  The three validations of \<open>init\<close> are started in this order and joined by
  \<open>Promise.all\<close>; none of them rejects. The state is threaded through them in the order
  in which they are started.
\<close>

definition validations :: "deps \<Rightarrow> npm_options \<Rightarrow> global_config \<Rightarrow> world \<Rightarrow> (bool \<times> bool \<times> string option) \<times> world" where
  "validations d opts g w =
     (case isRegistryUp d g w of
        (up, w1) \<Rightarrow>
          (case isAuthenticated d g w1 of
             (auth, w2) \<Rightarrow>
               (case getLatestRegistryVersion d opts g w2 of
                  (latest, w3) \<Rightarrow> ((up, auth, latest), w3))))"

text \<open>
  \<open>Promise.race [validations, rejectAfter REGISTRY_TIMEOUT]\<close>: which of the two settles
  first is decided by the clock and is a parameter of \<open>init\<close>. When the timer is first,
  \<open>init\<close> is rejected with what \<open>rejectAfter\<close> rejects with; the validations still
  pending are abandoned, and what they do later is not part of the state \<open>init\<close> leaves.
  Nothing in \<open>init\<close> catches that rejection.
\<close>

datatype settles_first = Validations | Timer

text \<open>
  The state when the timer is first: the three validations have been started, so the
  command each of them hands to the executor first is logged (\<open>npm ping\<close>,
  \<open>npm whoami\<close>, and \<open>npm view\<close> when the tag has to be guessed from the registry or
  \<open>npm show\<close> when it has not); their outcomes are not.
\<close>

definition validations_started :: "deps \<Rightarrow> npm_options \<Rightarrow> global_config \<Rightarrow> world \<Rightarrow> world" where
  "validations_started d opts g w =
     (let w1 = snd (exec d g (''npm ping'' @ registryArg w) True w);
          w2 = snd (exec d g (''npm whoami'' @ registryArg w) True w1);
          p = parseVersion d (getLatestVersion opts w)
      in if isPreRelease p \<and> nonempty (opt_tag opts) = None \<and> nonempty (preReleaseId p) = None
         then snd (exec d g (''npm view '' @ js_str (getName w) @ '' dist-tags --json'') False w2)
         else snd (exec d g (''npm show '' @ js_str (getName w) @ ''@''
                               @ fst (resolveTag d opts g (getLatestVersion opts w) w2)
                               @ '' version'' @ registryArg w) False w2))"

definition setManifest :: "manifest \<Rightarrow> world \<Rightarrow> world" where
  "setManifest m w =
     w\<lparr>ctx := (ctx w)\<lparr>ctx_name := man_name m, ctx_latestVersion := man_version m,
                       ctx_private := man_private m, ctx_registry := man_registry m\<rparr>\<rparr>"

definition init :: "deps \<Rightarrow> npm_options \<Rightarrow> global_config \<Rightarrow> manifest \<Rightarrow> settles_first \<Rightarrow> world \<Rightarrow> (npm_error + unit) \<times> world" where
  "init d opts g m race w =
     (let w0 = setManifest m w
      in if \<not> opt_publish opts \<or> man_private m then (Inr (), w0)
         else if opt_skipChecks opts then (Inr (), w0)
         else (case race of
                 Timer \<Rightarrow> (Inl (RejectedAfter REGISTRY_TIMEOUT), validations_started d opts g w0)
               | Validations \<Rightarrow>
                   (case validations d opts g w0 of
                      ((up, auth, latest), w1) \<Rightarrow>
                        if \<not> up then (Inl (NpmTimeoutError REGISTRY_TIMEOUT), w1)
                        else if \<not> auth then (Inl NpmAuthError, w1)
                        else (case nonempty latest of
                                None \<Rightarrow>
                                  (Inr (),
                                   warn ''No version found in npm registry. Assuming new package.''
                                     (w1\<lparr>ctx := (ctx w1)\<lparr>ctx_isNewPackage := True\<rparr>\<rparr>))
                              | Some v \<Rightarrow>
                                  (case semver_eq d (man_version m) v of
                                     None \<Rightarrow> (Inl TypeError, w1)
                                   | Some True \<Rightarrow> (Inr (), w1)
                                   | Some False \<Rightarrow>
                                       (Inr (),
                                        warn (''Latest version in registry ('' @ v
                                                @ '') does not match package.json (''
                                                @ js_str (man_version m) @ '').'') w1))))))"

text \<open>
  \<open>publish\<close>. The command line is put together before the package is tested for being
  private, and \<open>name.startsWith\<close> throws when the manifest has no name. One attempt
  either settles the promise or, when the registry asks for a one-time password and an
  \<open>otpCallback\<close> was given, prompts for one and publishes again with the answer. The
  passwords the user will type are the list \<open>otps\<close>; with none left the prompt is never
  answered and \<open>publish\<close> does not return (\<open>None\<close>).
\<close>

definition publish_command :: "npm_options \<Rightarrow> global_config \<Rightarrow> string \<Rightarrow> string option \<Rightarrow> world \<Rightarrow> string" where
  "publish_command opts g name otp w =
     (let publishPath = (case opt_publishPath opts of None \<Rightarrow> ''.'' | Some p \<Rightarrow> p);
          tag = (case ctx_tag (ctx w) of None \<Rightarrow> DEFAULT_TAG | Some t \<Rightarrow> t);
          isScopedPkg = prefix ''@'' name;
          accessArg = (case nonempty (opt_access opts) of
                         Some a \<Rightarrow> (if isScopedPkg then ''--access '' @ a else [])
                       | None \<Rightarrow> []);
          otpArg = (case nonempty otp of Some p \<Rightarrow> ''--otp '' @ p | None \<Rightarrow> []);
          dryRunArg = (if isDryRun g then ''--dry-run'' else [])
      in ''npm publish '' @ publishPath @ '' --tag '' @ tag @ '' '' @ accessArg @ '' '' @ otpArg
           @ '' '' @ dryRunArg)"

datatype attempt = Settled "npm_error + unit" world | Prompt_otp world

definition publish_attempt :: "deps \<Rightarrow> npm_options \<Rightarrow> global_config \<Rightarrow> bool \<Rightarrow> string option \<Rightarrow> world \<Rightarrow> attempt" where
  "publish_attempt d opts g otpCallback otp w =
     (case ctx_name (ctx w) of
        None \<Rightarrow> Settled (Inl TypeError) w
      | Some name \<Rightarrow>
          if ctx_private (ctx w)
          then Settled (Inr ()) (warn ''Skip publish: package is private.'' w)
          else (case exec d g (publish_command opts g name otp w) False w of
                  (Inr out, w1) \<Rightarrow> Settled (Inr ()) (w1\<lparr>isReleased := True\<rparr>)
                | (Inl err, w1) \<Rightarrow>
                    if contains ''one-time pass'' err
                    then (let w2 = (if otp \<noteq> None
                                    then warn ''The provided OTP is incorrect or has expired.'' w1
                                    else w1)
                          in if otpCallback then Prompt_otp w2
                             else Settled (Inl (ExecError err)) w2)
                    else Settled (Inl (ExecError err)) w1))"

fun publish :: "deps \<Rightarrow> npm_options \<Rightarrow> global_config \<Rightarrow> bool \<Rightarrow> string list \<Rightarrow> string option \<Rightarrow> world \<Rightarrow> ((npm_error + unit) \<times> world) option" where
  "publish d opts g otpCallback otps otp w =
     (case publish_attempt d opts g otpCallback otp w of
        Settled r w1 \<Rightarrow> Some (r, w1)
      | Prompt_otp w1 \<Rightarrow>
          (case otps of
             [] \<Rightarrow> None
           | x # xs \<Rightarrow> publish d opts g otpCallback xs (Some x) w1))"

text \<open>
  Modelled from the spec: the step runner behind \<open>this.step\<close> (the plugin base class is
  not among the sources). In an interactive run (not CI) a step with a prompt first
  asks, and the answer either confirms the task, which then runs, or skips it; otherwise
  the task runs under the progress indicator, and its error propagates unchanged. The
  plugin marks no step as to be skipped in dry-run mode. \<open>confirmed\<close> is the user's answer.
\<close>

definition step :: "global_config \<Rightarrow> bool \<Rightarrow> (world \<Rightarrow> ((npm_error + unit) \<times> world) option) \<Rightarrow> world \<Rightarrow> ((npm_error + unit) \<times> world) option" where
  "step g confirmed task w =
     (if \<not> isCI g then (if confirmed then task w else Some (Inr (), w)) else task w)"

text \<open>\<open>release\<close>: the \<open>otpCallback\<close> exists exactly when the run is not in CI.\<close>

definition release :: "deps \<Rightarrow> npm_options \<Rightarrow> global_config \<Rightarrow> bool \<Rightarrow> string list \<Rightarrow> world \<Rightarrow> ((npm_error + unit) \<times> world) option" where
  "release d opts g confirmed otps w =
     (if \<not> opt_publish opts then Some (Inr (), w)
      else step g confirmed (publish d opts g (\<not> isCI g) otps (opt_otp opts)) w)"

section \<open>Observing a run\<close>

text \<open>
  The commands a phase handed to the shell executor and the commands the shell ran
  between a state and a later one.
\<close>

definition logged_since :: "world \<Rightarrow> world \<Rightarrow> string list" where
  "logged_since w w' = drop (length (exec_log w)) (exec_log w')"

definition ran_since :: "world \<Rightarrow> world \<Rightarrow> string list" where
  "ran_since w w' = drop (length (ran w)) (ran w')"

text \<open>
  Between \<open>w\<close> and \<open>w'\<close> the shell ran a command, the last command it ran was an
  \<open>npm publish\<close>, and the shell reported success for it.
\<close>

definition publish_succeeded :: "deps \<Rightarrow> world \<Rightarrow> world \<Rightarrow> bool" where
  "publish_succeeded d w w' =
     (ran_since w w' \<noteq> [] \<and> prefix ''npm publish '' (last (ran w'))
      \<and> \<not> isl (sh d (butlast (ran w')) (last (ran w'))))"

text \<open>A publish command, carrying \<open>--dry-run\<close> at its end in dry-run mode.\<close>

definition publish_cmd_ok :: "global_config \<Rightarrow> string \<Rightarrow> bool" where
  "publish_cmd_ok g c = (prefix ''npm publish '' c \<and> (isDryRun g \<longrightarrow> suffix ''--dry-run'' c))"

text \<open>
  What a returning \<open>publish\<close> has done between \<open>w\<close> and \<open>w'\<close>: it handed the commands
  \<open>cmds\<close> to the shell, all of them publish commands and all of them run, none for a
  private package or a manifest without a name; and it set \<open>isReleased\<close> exactly when
  the last of them succeeded.
\<close>

definition publish_run :: "deps \<Rightarrow> global_config \<Rightarrow> world \<Rightarrow> (npm_error + unit) \<Rightarrow> world \<Rightarrow> string list \<Rightarrow> bool" where
  "publish_run d g w r w' cmds =
     (ctx w' = ctx w \<and> exec_log w' = exec_log w @ cmds \<and> ran w' = ran w @ cmds
      \<and> (\<forall>c \<in> set cmds. publish_cmd_ok g c)
      \<and> (ctx_private (ctx w) \<or> ctx_name (ctx w) = None \<longrightarrow> cmds = [])
      \<and> (if cmds \<noteq> [] \<and> \<not> isl (sh d (butlast (ran w')) (last (ran w')))
          then r = Inr () \<and> isReleased w'
          else isReleased w' = isReleased w))"

text \<open>The first step of \<open>bump\<close>: the tag and the state after resolving it.\<close>

definition resolved :: "deps \<Rightarrow> npm_options \<Rightarrow> global_config \<Rightarrow> string \<Rightarrow> world \<Rightarrow> string \<times> world" where
  "resolved d opts g v w =
     (case nonempty (opt_tag opts) of
        Some t \<Rightarrow> (t, w)
      | None \<Rightarrow> resolveTag d opts g (Some v) w)"

text \<open>
  The release channel as the spec words it: the default channel for a version without a
  pre-release identifier; otherwise the configured tag if set, else the version's own
  pre-release identifier, else the first pre-release channel the registry returns, else
  the default pre-release channel.
\<close>

definition channel_by_spec :: "bool \<Rightarrow> string option \<Rightarrow> string option \<Rightarrow> string list \<Rightarrow> string" where
  "channel_by_spec pre configured own_id registry_tags =
     (if \<not> pre then ''latest''
      else (case nonempty configured of
              Some t \<Rightarrow> t
            | None \<Rightarrow>
                (case nonempty own_id of
                   Some i \<Rightarrow> i
                 | None \<Rightarrow>
                     (case registry_tags of
                        [] \<Rightarrow> ''next''
                      | t # ts \<Rightarrow> (if t = [] then ''next'' else t)))))"


section \<open>The GitHub plugin\<close>

text \<open>
  The plugin itself is not among the sources; its tests are. Everything in this section
  is modelled from the spec, with the messages the tests expect.
\<close>

text \<open>The error of the remote API client: \<open>new RequestError (message, status, ...)\<close>.\<close>

datatype request_error = RequestError (message: string) (status: nat)

datatype retryable_error = Transient | Permanent

datatype github_error = GitHubClientError string

text \<open>
  Modelled from the spec: the classification of the retry policy. 401, 403 and 404 are
  permanent, 5xx is transient. What the spec does not name (any other status) is the
  parameter \<open>other\<close>.
\<close>

definition classify :: "(nat \<Rightarrow> retryable_error) \<Rightarrow> nat \<Rightarrow> retryable_error" where
  "classify other st =
     (if st = 401 \<or> st = 403 \<or> st = 404 then Permanent
      else if 500 \<le> st \<and> st < 600 then Transient
      else other st)"

definition digit_char :: "nat \<Rightarrow> char" where
  "digit_char n = ''0123456789'' ! n"

fun show_nat :: "nat \<Rightarrow> string" where
  "show_nat n = (if n < 10 then [digit_char n] else show_nat (n div 10) @ [digit_char (n mod 10)])"

text \<open>Modelled from the spec: the typed client error, \<open>"<status> (<message>)"\<close>.\<close>

definition client_error :: "request_error \<Rightarrow> github_error" where
  "client_error e = GitHubClientError (show_nat (status e) @ '' ('' @ message e @ '')'')"

text \<open>
  Modelled from the spec: the retry wrapper. \<open>fn k\<close> is the outcome of the invocation
  number \<open>k\<close> (from 0) of the wrapped call; \<open>left\<close> is the number of attempts still
  allowed after this one. The result is paired with the number of invocations made. A
  permanent failure is rethrown at once, a transient one is retried while attempts are
  left and rethrown after the last; the pause between attempts is not modelled.
\<close>

fun retry_loop :: "(nat \<Rightarrow> retryable_error) \<Rightarrow> (nat \<Rightarrow> request_error + 'a) \<Rightarrow> nat \<Rightarrow> nat \<Rightarrow> (github_error + 'a) \<times> nat" where
  "retry_loop other fn left k =
     (case fn k of
        Inr v \<Rightarrow> (Inr v, Suc k)
      | Inl e \<Rightarrow>
          (case classify other (status e) of
             Permanent \<Rightarrow> (Inl (client_error e), Suc k)
           | Transient \<Rightarrow>
               (case left of
                  0 \<Rightarrow> (Inl (client_error e), Suc k)
                | Suc l \<Rightarrow> retry_loop other fn l (Suc k))))"

definition retry :: "(nat \<Rightarrow> retryable_error) \<Rightarrow> nat \<Rightarrow> (nat \<Rightarrow> request_error + 'a) \<Rightarrow> (github_error + 'a) \<times> nat" where
  "retry other maxAttempts fn = retry_loop other fn (maxAttempts - 1) 0"

text \<open>The remote API client, as far as the precondition checks use it.\<close>

record remote_client =
  getAuthenticated :: "request_error + string"
  checkCollaborator :: "string \<Rightarrow> request_error + unit"

datatype api_call = GetAuthenticated | CheckCollaborator string

text \<open>
  The state the checks change: the identity in the context (\<open>github.username\<close>) and the
  network calls made, in order.
\<close>

record github_state =
  gh_username :: "string option"
  gh_calls :: "api_call list"

text \<open>
  Modelled from the spec: the challenge of \<open>init\<close>, that is what \<open>init\<close> does once the
  token is there and no bypass applies. The user is authenticated and then checked to be
  a collaborator of the repository; each check calls the remote client once (not at all
  in dry-run mode), and a failure of either is raised as the typed client error with the
  check's own message. \<open>tokenRef\<close> is the name of the token variable.
\<close>

definition isAuthenticated_gh :: "global_config \<Rightarrow> remote_client \<Rightarrow> github_state \<Rightarrow> bool \<times> github_state" where
  "isAuthenticated_gh g client s =
     (if isDryRun g then (True, s)
      else (case getAuthenticated client of
              Inr login \<Rightarrow>
                (True, s\<lparr>gh_username := Some login, gh_calls := gh_calls s @ [GetAuthenticated]\<rparr>)
            | Inl e \<Rightarrow> (False, s\<lparr>gh_calls := gh_calls s @ [GetAuthenticated]\<rparr>)))"

definition isCollaborator_gh :: "global_config \<Rightarrow> remote_client \<Rightarrow> github_state \<Rightarrow> bool \<times> github_state" where
  "isCollaborator_gh g client s =
     (if isDryRun g then (True, s)
      else (let username = js_str (gh_username s);
                s1 = s\<lparr>gh_calls := gh_calls s @ [CheckCollaborator username]\<rparr>
            in (case checkCollaborator client username of
                  Inr u \<Rightarrow> (True, s1)
                | Inl e \<Rightarrow> (False, s1))))"

definition challenge_gh :: "string \<Rightarrow> global_config \<Rightarrow> string \<Rightarrow> remote_client \<Rightarrow> github_state \<Rightarrow> (github_error + unit) \<times> github_state" where
  "challenge_gh tokenRef g repository client s =
     (case isAuthenticated_gh g client s of
        (False, s1) \<Rightarrow>
          (Inl (GitHubClientError
                  (''Could not authenticate with GitHub using environment variable \"''
                     @ tokenRef @ ''\".'')), s1)
      | (True, s1) \<Rightarrow>
          (case isCollaborator_gh g client s1 of
             (False, s2) \<Rightarrow>
               (Inl (GitHubClientError
                       (''User '' @ js_str (gh_username s2)
                          @ '' is not a collaborator for '' @ repository @ ''.'')), s2)
           | (True, s2) \<Rightarrow> (Inr (), s2)))"

section \<open>Concrete runs\<close>

text \<open>Inputs at which the theorems below are evaluated.\<close>

definition gh_state0 :: github_state where
  "gh_state0 = \<lparr>gh_username = None, gh_calls = []\<rparr>"

definition live_ci :: global_config where
  "live_ci = \<lparr>isCI = True, isDryRun = False\<rparr>"

definition dry_ci :: global_config where
  "dry_ci = \<lparr>isCI = True, isDryRun = True\<rparr>"

definition client_bad_credentials :: remote_client where
  "client_bad_credentials =
     \<lparr>getAuthenticated = Inl (RequestError ''Bad credentials'' 401),
      checkCollaborator = (\<lambda>u. Inr ())\<rparr>"

text \<open>
  \<open>parseVersion\<close> on the versions used below: \<open>1.0.0-next.1\<close> is a pre-release with the
  identifier \<open>next\<close>, \<open>1.0.0-0\<close> a pre-release without one, \<open>2.0.2\<close> and the others are
  not pre-releases.
\<close>

definition example_parse :: "string option \<Rightarrow> parsed_version" where
  "example_parse v =
     (if v = Some ''1.0.0-next.1'' then \<lparr>isPreRelease = True, preReleaseId = Some ''next''\<rparr>
      else if v = Some ''1.0.0-0'' then \<lparr>isPreRelease = True, preReleaseId = None\<rparr>
      else \<lparr>isPreRelease = False, preReleaseId = None\<rparr>)"

definition example_deps :: "(string list \<Rightarrow> string \<Rightarrow> string + string) \<Rightarrow> deps" where
  "example_deps shell =
     \<lparr>sh = shell, parseVersion = example_parse, semver_eq = (\<lambda>a b. Some (a = Some b)),
      json_keys = (\<lambda>output. None)\<rparr>"

definition sh_succeeds :: "string list \<Rightarrow> string \<Rightarrow> string + string" where
  "sh_succeeds = (\<lambda>history command. Inr [])"

definition sh_fails :: "string \<Rightarrow> string list \<Rightarrow> string \<Rightarrow> string + string" where
  "sh_fails err = (\<lambda>history command. Inl err)"


text \<open>
  A registry whose dist-tags are \<open>latest\<close> and \<open>beta\<close>, with \<open>Object.keys (JSON.parse output)\<close>
  on the output of \<open>npm view\<close>.
\<close>

definition dist_tags_output :: string where
  "dist_tags_output = ''{ \"latest\": \"1.0.0\", \"beta\": \"1.1.0-beta.0\" }''"

definition registry_deps :: deps where
  "registry_deps =
     \<lparr>sh = (\<lambda>history command. Inr dist_tags_output), parseVersion = example_parse,
      semver_eq = (\<lambda>a b. Some (a = Some b)),
      json_keys = (\<lambda>output. if output = dist_tags_output then Some [''latest'', ''beta''] else None)\<rparr>"

text \<open>
  A registry that answers \<open>npm whoami\<close> with a 404 that carries no error code of the
  npm client, and every other command with success.
\<close>

definition whoami_404 :: string where
  "whoami_404 = ''npm ERR! 404 Not Found: No content for path /-/whoami''"

definition sh_whoami_404 :: "string list \<Rightarrow> string \<Rightarrow> string + string" where
  "sh_whoami_404 =
     (\<lambda>history command. if prefix ''npm whoami'' command then Inl whoami_404 else Inr ''1.0.0'')"

definition example_options :: npm_options where
  "example_options =
     \<lparr>opt_publish = True, opt_skipChecks = False, opt_ignoreVersion = False, opt_tag = None,
      opt_otp = None, opt_publishPath = None, opt_access = None\<rparr>"

definition example_manifest :: manifest where
  "example_manifest =
     \<lparr>man_name = Some ''pkg'', man_version = Some ''1.0.0'', man_private = False,
      man_registry = None\<rparr>"

text \<open>The manifest of a private package that has no name.\<close>

definition nameless_private_manifest :: manifest where
  "nameless_private_manifest =
     \<lparr>man_name = None, man_version = Some ''1.0.0'', man_private = True, man_registry = None\<rparr>"

definition example_world :: world where
  "example_world =
     \<lparr>isReleased = False,
      ctx = \<lparr>ctx_name = Some ''pkg'', ctx_latestVersion = Some ''1.0.0'', ctx_private = False,
             ctx_registry = None, ctx_version = None, ctx_tag = None, ctx_isNewPackage = False\<rparr>,
      exec_log = [], ran = [], warnings = []\<rparr>"

definition private_world :: world where
  "private_world = example_world\<lparr>ctx := (ctx example_world)\<lparr>ctx_private := True\<rparr>\<rparr>"

definition nameless_private_world :: world where
  "nameless_private_world =
     example_world\<lparr>ctx := (ctx example_world)\<lparr>ctx_name := None, ctx_private := True\<rparr>\<rparr>"

section \<open>The retry policy\<close>

declare show_nat.simps [simp del]

declare retry_loop.simps [simp del]

declare publish.simps [simp del]

lemma retry_loop_permanent:
  "fn k = Inl e \<Longrightarrow> classify other (status e) = Permanent \<Longrightarrow>
   retry_loop other fn left k = (Inl (client_error e), Suc k)"
  by (subst retry_loop.simps) simp

text \<open>
  With \<open>left\<close> attempts left after this one, a call that keeps failing with transient
  statuses is invoked \<open>left + 1\<close> more times and its last error is the one rethrown.
\<close>

lemma retry_loop_transient:
  "(\<And>j. j \<le> left \<Longrightarrow> \<exists>e. fn (k + j) = Inl e \<and> classify other (status e) = Transient) \<Longrightarrow>
   retry_loop other fn left k = (Inl (client_error (projl (fn (k + left)))), Suc (k + left))"
proof (induction left arbitrary: k)
  case 0
  from "0.prems"[of 0] obtain e where e: "fn k = Inl e" "classify other (status e) = Transient"
    by auto
  then show ?case by (subst retry_loop.simps) simp
next
  case (Suc left)
  from Suc.prems[of 0] obtain e where e: "fn k = Inl e" "classify other (status e) = Transient"
    by auto
  have "retry_loop other fn left (Suc k)
          = (Inl (client_error (projl (fn (Suc k + left)))), Suc (Suc k + left))"
  proof (rule Suc.IH)
    fix j assume "j \<le> left"
    then have "Suc j \<le> Suc left" by simp
    from Suc.prems[OF this] show "\<exists>e. fn (Suc k + j) = Inl e \<and> classify other (status e) = Transient"
      by simp
  qed
  with e show ?case by (subst retry_loop.simps) simp
qed

text \<open>
  Claim C1, as it stands, fails at the authentication check of \<open>init\<close>: the remote call
  \<open>getAuthenticated\<close> fails with status 401 and message \<open>Bad credentials\<close>, it is invoked
  once, and the error raised is the typed client error with the message of the check,
  not \<open>401 (Bad credentials)\<close>.
\<close>

theorem challenge_bad_credentials_counterexample:
  "getAuthenticated client_bad_credentials = Inl (RequestError ''Bad credentials'' 401)
   \<and> challenge_gh ''GITHUB_TOKEN'' live_ci ''user/repo'' client_bad_credentials gh_state0
       = (Inl (GitHubClientError
                ''Could not authenticate with GitHub using environment variable \"GITHUB_TOKEN\".''),
          gh_state0\<lparr>gh_calls := [GetAuthenticated]\<rparr>)
   \<and> GitHubClientError
        ''Could not authenticate with GitHub using environment variable \"GITHUB_TOKEN\".''
       \<noteq> client_error (RequestError ''Bad credentials'' 401)"
  by (simp add: challenge_gh_def isAuthenticated_gh_def client_bad_credentials_def
      live_ci_def gh_state0_def client_error_def show_nat.simps digit_char_def)

text \<open>
  Claim C1, amended: a call made through the retry wrapper whose first invocation fails
  with status 401 or 404 is invoked exactly once, whatever the maximum number of
  attempts, and the error raised is the typed client error with the message
  \<open>"<status> (<message>)"\<close>.
\<close>

theorem retry_permanent_once:
  assumes "fn 0 = Inl e" and "status e = 401 \<or> status e = 404"
  shows "retry other maxAttempts fn
           = (Inl (GitHubClientError (show_nat (status e) @ '' ('' @ message e @ '')'')), 1)"
proof -
  from assms(2) have "classify other (status e) = Permanent"
    by (auto simp: classify_def)
  with assms(1) show ?thesis
    by (simp add: retry_def retry_loop_permanent client_error_def)
qed

theorem retry_permanent_once_witness:
  "retry (\<lambda>st. Transient) 3 (\<lambda>k. Inl (RequestError ''Not found'' 404) :: request_error + unit)
     = (Inl (GitHubClientError ''404 (Not found)''), 1)"
  using retry_permanent_once[of "\<lambda>k. Inl (RequestError ''Not found'' 404)" "RequestError ''Not found'' 404"
      "\<lambda>st. Transient" 3]
  by (simp add: show_nat.simps digit_char_def)

text \<open>
  Claim C2: under a retry policy with a maximum of 3 attempts, a call whose three
  invocations all fail with a transient status is invoked exactly 3 times, and the last
  error is raised as the typed client error with the message \<open>"<status> (<message>)"\<close>.
\<close>

theorem retry_transient_three:
  assumes "fn 0 = Inl e0" and "classify other (status e0) = Transient"
    and "fn 1 = Inl e1" and "classify other (status e1) = Transient"
    and "fn 2 = Inl e2" and "classify other (status e2) = Transient"
  shows "retry other 3 fn
           = (Inl (GitHubClientError (show_nat (status e2) @ '' ('' @ message e2 @ '')'')), 3)"
proof -
  have "retry_loop other fn 2 0 = (Inl (client_error (projl (fn (0 + 2)))), Suc (0 + 2))"
  proof (rule retry_loop_transient)
    fix j :: nat assume "j \<le> 2"
    then have "j = 0 \<or> j = 1 \<or> j = 2" by auto
    with assms show "\<exists>e. fn (0 + j) = Inl e \<and> classify other (status e) = Transient"
      by auto
  qed
  moreover have "fn (0 + 2) = Inl e2"
    using assms(5) by (simp add: numeral_2_eq_2)
  ultimately have "retry_loop other fn 2 0 = (Inl (client_error e2), 3)"
    by simp
  then show ?thesis
    by (simp add: retry_def client_error_def)
qed

theorem retry_transient_three_witness:
  "retry (\<lambda>st. Permanent) 3 (\<lambda>k. Inl (RequestError ''Request failed'' 500) :: request_error + unit)
     = (Inl (GitHubClientError ''500 (Request failed)''), 3)"
  using retry_transient_three[of "\<lambda>k. Inl (RequestError ''Request failed'' 500)"
      "RequestError ''Request failed'' 500" "\<lambda>st. Permanent"
      "RequestError ''Request failed'' 500" "RequestError ''Request failed'' 500"]
  by (simp add: show_nat.simps digit_char_def classify_def)

section \<open>The release channel\<close>

lemma nonempty_simps:
  "nonempty None = None"
  "nonempty (Some []) = None"
  "s \<noteq> [] \<Longrightarrow> nonempty (Some s) = Some s"
  by (simp_all add: nonempty_def)

lemma exec_frame [simp]:
  "isReleased (snd (exec d g c m w)) = isReleased w"
  "ctx (snd (exec d g c m w)) = ctx w"
  "warnings (snd (exec d g c m w)) = warnings w"
  "exec_log (snd (exec d g c m w)) = exec_log w @ [c]"
  "ran (snd (exec d g c m w)) = (if isDryRun g \<and> m then ran w else ran w @ [c])"
  by (simp_all add: exec_def)

lemma exec_read_only:
  "exec d g c False w = (sh d (ran w) c, w\<lparr>exec_log := exec_log w @ [c], ran := ran w @ [c]\<rparr>)"
  by (simp add: exec_def)

lemma warn_frame [simp]:
  "isReleased (warn msg w) = isReleased w"
  "ctx (warn msg w) = ctx w"
  "exec_log (warn msg w) = exec_log w"
  "ran (warn msg w) = ran w"
  "warnings (warn msg w) = warnings w @ [msg]"
  by (simp_all add: warn_def)

lemma registry_tags:
  "fst (getRegistryPreReleaseTags d g w) =
     (case sh d (ran w) (''npm view '' @ js_str (ctx_name (ctx w)) @ '' dist-tags --json'') of
        Inr output \<Rightarrow>
          (case json_keys d output of
             Some tags \<Rightarrow> filter (\<lambda>t. t \<noteq> ''latest'') tags
           | None \<Rightarrow> [])
      | Inl err \<Rightarrow> [])"
  by (simp add: getRegistryPreReleaseTags_def exec_read_only getName_def DEFAULT_TAG_def
      split: sum.splits option.splits)

lemma fst_guessPreReleaseTag:
  "fst (guessPreReleaseTag d g w) =
     (case fst (getRegistryPreReleaseTags d g w) of
        [] \<Rightarrow> ''next''
      | t # ts \<Rightarrow> (if t = [] then ''next'' else t))"
  by (simp add: guessPreReleaseTag_def DEFAULT_TAG_PRERELEASE_def nonempty_def
      split: prod.splits list.splits)

lemma fst_resolveTag:
  "fst (resolveTag d opts g v w) =
     channel_by_spec (isPreRelease (parseVersion d v)) (opt_tag opts)
       (preReleaseId (parseVersion d v)) (fst (getRegistryPreReleaseTags d g w))"
  by (simp add: resolveTag_def channel_by_spec_def Let_def DEFAULT_TAG_def fst_guessPreReleaseTag
      split: option.splits)

lemma bump_tag:
  "ctx_tag (ctx (bump d opts g v w)) =
     Some (case nonempty (opt_tag opts) of
             Some t \<Rightarrow> t
           | None \<Rightarrow> fst (resolveTag d opts g (Some v) w))"
  by (simp add: bump_def exec_def warn_def split: option.splits prod.splits sum.splits)

text \<open>
  Claim C3, as it stands, fails for \<open>bump\<close>: with the tag \<open>beta\<close> configured, the version
  \<open>2.0.2\<close>, which has no pre-release identifier, is given the channel \<open>beta\<close> and not the
  default channel.
\<close>

theorem bump_configured_tag_counterexample:
  "\<not> isPreRelease (parseVersion (example_deps sh_succeeds) (Some ''2.0.2''))
   \<and> ctx_tag (ctx (bump (example_deps sh_succeeds) (example_options\<lparr>opt_tag := Some ''beta''\<rparr>)
                      live_ci ''2.0.2'' example_world)) = Some ''beta''
   \<and> ''beta'' \<noteq> DEFAULT_TAG"
  by (simp add: bump_tag nonempty_def example_deps_def example_parse_def example_options_def
      DEFAULT_TAG_def)

text \<open>
  Claim C3, amended: \<open>resolveTag\<close> resolves the channel as the spec words it, where the
  channels the registry returns are the keys of its dist-tags other than \<open>latest\<close> (none
  when the command fails or its output does not parse); \<open>bump\<close> records the configured
  tag if one is set, whatever the version, and the channel resolved that way otherwise.
\<close>

theorem resolveTag_bump_channel:
  "fst (resolveTag d opts g v w) =
     channel_by_spec (isPreRelease (parseVersion d v)) (opt_tag opts)
       (preReleaseId (parseVersion d v)) (fst (getRegistryPreReleaseTags d g w))
   \<and> ctx_tag (ctx (bump d opts g version w)) =
       Some (case nonempty (opt_tag opts) of
               Some t \<Rightarrow> t
             | None \<Rightarrow>
                 channel_by_spec (isPreRelease (parseVersion d (Some version))) None
                   (preReleaseId (parseVersion d (Some version)))
                   (fst (getRegistryPreReleaseTags d g w)))
   \<and> fst (getRegistryPreReleaseTags d g w) =
       (case sh d (ran w) (''npm view '' @ js_str (ctx_name (ctx w)) @ '' dist-tags --json'') of
          Inr output \<Rightarrow>
            (case json_keys d output of
               Some tags \<Rightarrow> filter (\<lambda>t. t \<noteq> ''latest'') tags
             | None \<Rightarrow> [])
        | Inl err \<Rightarrow> [])"
proof -
  have "nonempty (opt_tag opts) = None \<Longrightarrow>
        channel_by_spec pre (opt_tag opts) own tags = channel_by_spec pre None own tags"
    for pre own tags
    by (simp add: channel_by_spec_def nonempty_def)
  then show ?thesis
    by (simp add: fst_resolveTag bump_tag registry_tags split: option.splits)
qed

theorem resolveTag_bump_channel_witness:
  "ctx_tag (ctx (bump (example_deps sh_succeeds) example_options live_ci ''2.0.2'' example_world))
     = Some ''latest''
   \<and> ctx_tag (ctx (bump (example_deps sh_succeeds) example_options live_ci ''1.0.0-next.1''
                      example_world)) = Some ''next''
   \<and> ctx_tag (ctx (bump (example_deps sh_succeeds) example_options live_ci ''1.0.0-0''
                      example_world)) = Some ''next''
   \<and> fst (resolveTag (example_deps sh_succeeds) (example_options\<lparr>opt_tag := Some ''beta''\<rparr>) live_ci
            (Some ''2.0.2'') example_world) = ''latest''
   \<and> ctx_tag (ctx (bump registry_deps example_options live_ci ''1.0.0-0'' example_world))
       = Some ''beta''"
  using resolveTag_bump_channel[of "example_deps sh_succeeds" example_options live_ci
      "Some ''2.0.2''" example_world "''2.0.2''"]
    resolveTag_bump_channel[of registry_deps example_options live_ci
      "Some ''1.0.0-0''" example_world "''1.0.0-0''"]
    resolveTag_bump_channel[of "example_deps sh_succeeds" example_options live_ci
      "Some ''1.0.0-next.1''" example_world "''1.0.0-next.1''"]
    resolveTag_bump_channel[of "example_deps sh_succeeds" example_options live_ci
      "Some ''1.0.0-0''" example_world "''1.0.0-0''"]
    resolveTag_bump_channel[of "example_deps sh_succeeds" "example_options\<lparr>opt_tag := Some ''beta''\<rparr>"
      live_ci "Some ''2.0.2''" example_world "''2.0.2''"]
  by (simp add: channel_by_spec_def nonempty_def example_deps_def example_parse_def
      example_options_def example_world_def sh_succeeds_def js_str_def registry_deps_def)

section \<open>What the operations leave unchanged\<close>

lemma tags_frame [simp]:
  "isReleased (snd (getRegistryPreReleaseTags d g w)) = isReleased w"
  "ctx (snd (getRegistryPreReleaseTags d g w)) = ctx w"
  by (simp_all add: getRegistryPreReleaseTags_def exec_read_only split: sum.splits option.splits)

lemma guess_frame [simp]:
  "isReleased (snd (guessPreReleaseTag d g w)) = isReleased w"
  "ctx (snd (guessPreReleaseTag d g w)) = ctx w"
  by (simp_all add: guessPreReleaseTag_def split: prod.splits option.splits)
     (metis snd_conv tags_frame)+

lemma resolveTag_frame [simp]:
  "isReleased (snd (resolveTag d opts g v w)) = isReleased w"
  "ctx (snd (resolveTag d opts g v w)) = ctx w"
  by (simp_all add: resolveTag_def Let_def split: option.splits)

lemma resolveTag_frameD:
  "resolveTag d opts g v w = (t, w1) \<Longrightarrow> isReleased w1 = isReleased w \<and> ctx w1 = ctx w"
  using resolveTag_frame[of d opts g v w] by simp

lemma bump_isReleased [simp]: "isReleased (bump d opts g v w) = isReleased w"
proof -
  obtain tag w1 where t: "(case nonempty (opt_tag opts) of Some t \<Rightarrow> (t, w)
            | None \<Rightarrow> resolveTag d opts g (Some v) w) = (tag, w1)"
    by (cases "(case nonempty (opt_tag opts) of Some t \<Rightarrow> (t, w)
            | None \<Rightarrow> resolveTag d opts g (Some v) w)") 
  then have "isReleased w1 = isReleased w"
    by (auto split: option.splits dest: resolveTag_frameD)
  with t show ?thesis
    by (simp add: bump_def exec_def split: sum.splits prod.splits)
qed

lemma isRegistryUp_frame [simp]:
  "isReleased (snd (isRegistryUp d g w)) = isReleased w"
  "ctx (snd (isRegistryUp d g w)) = ctx w"
  by (simp_all add: isRegistryUp_def exec_def split: sum.splits)

lemma isAuthenticated_frame [simp]:
  "isReleased (snd (isAuthenticated d g w)) = isReleased w"
  "ctx (snd (isAuthenticated d g w)) = ctx w"
  by (simp_all add: isAuthenticated_def exec_def split: sum.splits)

lemma getLatestRegistryVersion_frame [simp]:
  "isReleased (snd (getLatestRegistryVersion d opts g w)) = isReleased w"
proof -
  obtain tag w1 where t: "resolveTag d opts g (getLatestVersion opts w) w = (tag, w1)"
    by (cases "resolveTag d opts g (getLatestVersion opts w) w")
  then have "isReleased w1 = isReleased w"
    by (metis resolveTag_frame(1) snd_conv)
  with t show ?thesis
    by (simp add: getLatestRegistryVersion_def exec_read_only split: sum.splits)
qed

lemma validations_isReleased [simp]:
  "isReleased (snd (validations d opts g w)) = isReleased w"
proof -
  obtain up w1 where a: "isRegistryUp d g w = (up, w1)" by (cases "isRegistryUp d g w")
  obtain auth w2 where b: "isAuthenticated d g w1 = (auth, w2)" by (cases "isAuthenticated d g w1")
  obtain latest w3 where c: "getLatestRegistryVersion d opts g w2 = (latest, w3)"
    by (cases "getLatestRegistryVersion d opts g w2")
  have "isReleased w1 = isReleased w" using a by (metis isRegistryUp_frame(1) snd_conv)
  moreover have "isReleased w2 = isReleased w1" using b by (metis isAuthenticated_frame(1) snd_conv)
  moreover have "isReleased w3 = isReleased w2" using c by (metis getLatestRegistryVersion_frame snd_conv)
  ultimately show ?thesis using a b c by (simp add: validations_def)
qed

lemma validations_started_frame [simp]:
  "isReleased (validations_started d opts g w) = isReleased w"
  "ctx (validations_started d opts g w) = ctx w"
  by (simp_all add: validations_started_def Let_def)

text \<open>
  The commands of the started validations are the first commands of the validations run
  to their end: what \<open>init\<close> has logged when the timer is first is a prefix of what it
  has logged when the validations are.
\<close>

lemma registryArg_ctx: "ctx w' = ctx w \<Longrightarrow> registryArg w' = registryArg w"
  by (simp add: registryArg_def getRegistry_def)

lemma getName_ctx: "ctx w' = ctx w \<Longrightarrow> getName w' = getName w"
  by (simp add: getName_def)

lemma getLatestVersion_ctx: "ctx w' = ctx w \<Longrightarrow> getLatestVersion opts w' = getLatestVersion opts w"
  by (simp add: getLatestVersion_def)

lemma isRegistryUp_log:
  "exec_log (snd (isRegistryUp d g w)) = exec_log w @ [''npm ping'' @ registryArg w]"
  by (simp add: isRegistryUp_def exec_def split: sum.splits)

lemma isAuthenticated_log:
  "exec_log (snd (isAuthenticated d g w)) = exec_log w @ [''npm whoami'' @ registryArg w]"
  by (simp add: isAuthenticated_def exec_def split: sum.splits)

lemma tags_log:
  "exec_log (snd (getRegistryPreReleaseTags d g w))
     = exec_log w @ [''npm view '' @ js_str (getName w) @ '' dist-tags --json'']"
  by (simp add: getRegistryPreReleaseTags_def exec_read_only split: sum.splits option.splits)

lemma guess_log:
  "exec_log (snd (guessPreReleaseTag d g w))
     = exec_log w @ [''npm view '' @ js_str (getName w) @ '' dist-tags --json'']"
proof -
  obtain tags w1 where t: "getRegistryPreReleaseTags d g w = (tags, w1)"
    by (cases "getRegistryPreReleaseTags d g w")
  with tags_log[of d g w] show ?thesis
    by (simp add: guessPreReleaseTag_def split: option.splits)
qed

lemma getLatestRegistryVersion_log:
  "exec_log (snd (getLatestRegistryVersion d opts g w))
     = exec_log (snd (resolveTag d opts g (getLatestVersion opts w) w))
       @ [''npm show '' @ js_str (getName w) @ ''@''
            @ fst (resolveTag d opts g (getLatestVersion opts w) w)
            @ '' version'' @ registryArg w]"
proof -
  obtain tag w1 where t: "resolveTag d opts g (getLatestVersion opts w) w = (tag, w1)"
    by (cases "resolveTag d opts g (getLatestVersion opts w) w")
  then show ?thesis
    by (simp add: getLatestRegistryVersion_def exec_read_only split: sum.splits)
qed

lemma validations_log:
  "exec_log (snd (validations d opts g w))
     = exec_log (snd (getLatestRegistryVersion d opts g
                        (snd (isAuthenticated d g (snd (isRegistryUp d g w))))))"
  by (simp add: validations_def split: prod.splits)

lemma validations_started_prefix:
  "prefix (exec_log (validations_started d opts g w)) (exec_log (snd (validations d opts g w)))"
proof -
  let ?w1 = "snd (isRegistryUp d g w)"
  let ?w2 = "snd (isAuthenticated d g ?w1)"
  let ?v1 = "snd (exec d g (''npm ping'' @ registryArg w) True w)"
  let ?v2 = "snd (exec d g (''npm whoami'' @ registryArg w) True ?v1)"
  have c: "ctx ?w2 = ctx w" "ctx ?v2 = ctx w" by simp_all
  have r1: "registryArg ?w1 = registryArg w" by (rule registryArg_ctx) simp
  have l: "exec_log ?w2 = exec_log w @ [''npm ping'' @ registryArg w, ''npm whoami'' @ registryArg w]"
    "exec_log ?v2 = exec_log w @ [''npm ping'' @ registryArg w, ''npm whoami'' @ registryArg w]"
    by (simp_all add: isAuthenticated_log isRegistryUp_log r1)
  note eqs = registryArg_ctx[OF c(1)] getName_ctx[OF c(1)] getLatestVersion_ctx[OF c(1)]
  let ?p = "parseVersion d (getLatestVersion opts w)"
  show ?thesis
  proof (cases "isPreRelease ?p \<and> nonempty (opt_tag opts) = None \<and> nonempty (preReleaseId ?p) = None")
    case True
    then have "resolveTag d opts g (getLatestVersion opts w) ?w2 = guessPreReleaseTag d g ?w2"
      by (simp add: resolveTag_def Let_def)
    then show ?thesis using True l
      by (simp add: validations_log getLatestRegistryVersion_log eqs guess_log
          validations_started_def Let_def)
  next
    case False
    then have "snd (resolveTag d opts g (getLatestVersion opts w) ?w2) = ?w2"
      "fst (resolveTag d opts g (getLatestVersion opts w) ?w2)
         = fst (resolveTag d opts g (getLatestVersion opts w) ?v2)"
      by (auto simp: resolveTag_def Let_def split: option.splits)
    then show ?thesis using False l
      by (simp add: validations_log getLatestRegistryVersion_log eqs
          validations_started_def Let_def)
  qed
qed

lemma init_isReleased [simp]:
  "isReleased (snd (init d opts g m race w)) = isReleased w"
proof -
  let ?w0 = "setManifest m w"
  have w0: "isReleased ?w0 = isReleased w" by (simp add: setManifest_def)
  obtain up auth latest w1 where v: "validations d opts g ?w0 = ((up, auth, latest), w1)"
    by (cases "validations d opts g ?w0") auto
  then have "isReleased w1 = isReleased w"
    using w0 by (metis validations_isReleased snd_conv)
  with v w0 show ?thesis
    by (simp add: init_def Let_def split: settles_first.splits option.splits bool.splits)
qed

section \<open>The commands of publish\<close>

lemma prefix_publish_command: "prefix ''npm publish '' (publish_command opts g name otp w)"
  by (simp add: publish_command_def Let_def)

lemma suffix_publish_command:
  "isDryRun g \<Longrightarrow> suffix ''--dry-run'' (publish_command opts g name otp w)"
  unfolding publish_command_def Let_def
  by (simp add: suffix_def) 

lemma publish_command_dry_run:
  "publish_command opts (g\<lparr>isDryRun := True\<rparr>) name otp w
     = publish_command opts (g\<lparr>isDryRun := False\<rparr>) name otp w @ ''--dry-run''"
  by (simp add: publish_command_def Let_def)

lemma publish_attempt_named:
  assumes "ctx_name (ctx w) = Some n" and "\<not> ctx_private (ctx w)"
  shows "publish_attempt d opts g cb otp w =
     (let c = publish_command opts g n otp w;
          w' = w\<lparr>exec_log := exec_log w @ [c], ran := ran w @ [c]\<rparr>
      in case sh d (ran w) c of
           Inr out \<Rightarrow> Settled (Inr ()) (w'\<lparr>isReleased := True\<rparr>)
         | Inl err \<Rightarrow>
             if contains ''one-time pass'' err
             then (let w2 = (if otp \<noteq> None
                             then warn ''The provided OTP is incorrect or has expired.'' w'
                             else w')
                   in if cb then Prompt_otp w2 else Settled (Inl (ExecError err)) w2)
             else Settled (Inl (ExecError err)) w')"
  using assms by (simp add: publish_attempt_def exec_read_only Let_def)

lemma publish_attempt_settled:
  assumes "publish_attempt d opts g cb otp w = Settled r w'"
  shows "\<exists>cmds. publish_run d g w r w' cmds"
proof (cases "ctx_name (ctx w)")
  case None
  with assms have "publish_run d g w r w' []"
    by (simp add: publish_attempt_def publish_run_def)
  then show ?thesis ..
next
  case (Some n)
  show ?thesis
  proof (cases "ctx_private (ctx w)")
    case True
    with Some assms have "publish_run d g w r w' []"
      by (auto simp: publish_attempt_def publish_run_def)
    then show ?thesis ..
  next
    case False
    let ?c = "publish_command opts g n otp w"
    have ok: "publish_cmd_ok g ?c"
      by (simp add: publish_cmd_ok_def prefix_publish_command suffix_publish_command)
    have "ctx w' = ctx w \<and> exec_log w' = exec_log w @ [?c] \<and> ran w' = ran w @ [?c]
          \<and> (if isl (sh d (ran w) ?c) then isReleased w' = isReleased w
              else r = Inr () \<and> isReleased w')"
      using assms unfolding publish_attempt_named[OF Some False]
      by (auto simp: Let_def split: sum.splits if_splits)
    with ok False Some have "publish_run d g w r w' [?c]"
      by (simp add: publish_run_def)
    then show ?thesis ..
  qed
qed

lemma publish_attempt_prompt:
  assumes "publish_attempt d opts g cb otp w = Prompt_otp w'"
  shows "ctx w' = ctx w \<and> isReleased w' = isReleased w \<and> \<not> ctx_private (ctx w)
         \<and> ctx_name (ctx w) \<noteq> None \<and>
         (\<exists>c. publish_cmd_ok g c \<and> exec_log w' = exec_log w @ [c] \<and> ran w' = ran w @ [c]
               \<and> isl (sh d (ran w) c))"
proof (cases "ctx_name (ctx w)")
  case None
  with assms show ?thesis by (simp add: publish_attempt_def)
next
  case (Some n)
  show ?thesis
  proof (cases "ctx_private (ctx w)")
    case True
    with Some assms show ?thesis by (auto simp: publish_attempt_def)
  next
    case False
    let ?c = "publish_command opts g n otp w"
    have ok: "publish_cmd_ok g ?c"
      by (simp add: publish_cmd_ok_def prefix_publish_command suffix_publish_command)
    have "ctx w' = ctx w \<and> isReleased w' = isReleased w
          \<and> exec_log w' = exec_log w @ [?c] \<and> ran w' = ran w @ [?c] \<and> isl (sh d (ran w) ?c)"
      using assms unfolding publish_attempt_named[OF Some False]
      by (auto simp: Let_def split: sum.splits if_splits)
    with ok False Some show ?thesis by blast
  qed
qed

lemma publish_run_cons:
  assumes "ctx w0 = ctx w" and "isReleased w0 = isReleased w" and "\<not> ctx_private (ctx w)"
    and "ctx_name (ctx w) \<noteq> None" and "publish_cmd_ok g c"
    and "exec_log w0 = exec_log w @ [c]" and "ran w0 = ran w @ [c]" and "isl (sh d (ran w) c)"
    and "publish_run d g w0 r w' cmds"
  shows "publish_run d g w r w' (c # cmds)"
proof (cases "cmds = []")
  case True
  with assms(9) assms(7) have "ran w' = ran w @ [c]" by (simp add: publish_run_def)
  then have "butlast (ran w') = ran w" "last (ran w') = c" by simp_all
  with assms True show ?thesis by (simp add: publish_run_def)
next
  case False
  with assms show ?thesis by (simp add: publish_run_def)
qed

lemma publish_trace:
  "publish d opts g cb otps otp w = Some (r, w') \<Longrightarrow> \<exists>cmds. publish_run d g w r w' cmds"
proof (induction otps arbitrary: otp w)
  case Nil
  then have "publish_attempt d opts g cb otp w = Settled r w'"
    by (simp add: publish.simps split: attempt.splits)
  then show ?case by (rule publish_attempt_settled)
next
  case (Cons x xs)
  show ?case
  proof (cases "publish_attempt d opts g cb otp w")
    case (Settled r0 w0)
    with Cons.prems have "publish_attempt d opts g cb otp w = Settled r w'"
      by (simp add: publish.simps)
    then show ?thesis by (rule publish_attempt_settled)
  next
    case (Prompt_otp w0)
    with Cons.prems have "publish d opts g cb xs (Some x) w0 = Some (r, w')"
      by (simp add: publish.simps)
    from Cons.IH[OF this] obtain cmds where ih: "publish_run d g w0 r w' cmds" ..
    from publish_attempt_prompt[OF Prompt_otp] obtain c where
      "ctx w0 = ctx w" "isReleased w0 = isReleased w" "\<not> ctx_private (ctx w)"
      "ctx_name (ctx w) \<noteq> None" "publish_cmd_ok g c"
      "exec_log w0 = exec_log w @ [c]" "ran w0 = ran w @ [c]" "isl (sh d (ran w) c)"
      by blast
    from publish_run_cons[OF this ih] show ?thesis ..
  qed
qed


lemma publish_private_named:
  assumes "ctx_name (ctx w) = Some n" and "ctx_private (ctx w)"
  shows "publish d opts g cb otps otp w = Some (Inr (), warn ''Skip publish: package is private.'' w)"
  using assms by (simp add: publish.simps publish_attempt_def)

lemma publish_nameless:
  assumes "ctx_name (ctx w) = None"
  shows "publish d opts g cb otps otp w = Some (Inl TypeError, w)"
  using assms by (simp add: publish.simps publish_attempt_def)

lemma release_cases:
  "release d opts g confirmed otps w = Some (r, w') \<Longrightarrow>
   (r = Inr () \<and> w' = w) \<or> publish d opts g (\<not> isCI g) otps (opt_otp opts) w = Some (r, w')"
  by (auto simp: release_def step_def split: if_splits)

lemma publish_run_flag:
  assumes "publish_run d g w r w' cmds"
  shows "(isReleased w \<longrightarrow> isReleased w')
         \<and> (isReleased w' \<and> \<not> isReleased w \<longrightarrow> r = Inr () \<and> publish_succeeded d w w')"
proof -
  from assms have run: "ran w' = ran w @ cmds" "\<forall>c \<in> set cmds. publish_cmd_ok g c"
    and flag: "if cmds \<noteq> [] \<and> \<not> isl (sh d (butlast (ran w')) (last (ran w')))
          then r = Inr () \<and> isReleased w' else isReleased w' = isReleased w"
    unfolding publish_run_def by blast+
  have "prefix ''npm publish '' (last (ran w'))" if "cmds \<noteq> []"
  proof -
    from that run(1) have "last (ran w') = last cmds" by simp
    moreover from that have "last cmds \<in> set cmds" by simp
    ultimately show ?thesis using run(2) by (simp add: publish_cmd_ok_def)
  qed
  moreover have "ran_since w w' = cmds"
    using run(1) by (simp add: ran_since_def)
  ultimately show ?thesis
    using flag by (auto simp: publish_succeeded_def split: if_splits)
qed

lemma tags_ran:
  "ran (snd (getRegistryPreReleaseTags d g w))
     = ran w @ [''npm view '' @ js_str (ctx_name (ctx w)) @ '' dist-tags --json'']"
  "exec_log (snd (getRegistryPreReleaseTags d g w))
     = exec_log w @ [''npm view '' @ js_str (ctx_name (ctx w)) @ '' dist-tags --json'']"
  by (simp_all add: getRegistryPreReleaseTags_def exec_read_only getName_def
      split: sum.splits option.splits)

lemma tags_any_mode: "getRegistryPreReleaseTags d g w = getRegistryPreReleaseTags d g' w"
  by (simp add: getRegistryPreReleaseTags_def exec_read_only)

lemma guess_any_mode: "guessPreReleaseTag d g w = guessPreReleaseTag d g' w"
  by (simp add: guessPreReleaseTag_def tags_any_mode[of d g w g'])

lemma resolveTag_any_mode: "resolveTag d opts g v w = resolveTag d opts g' v w"
  by (simp add: resolveTag_def Let_def guess_any_mode[of d g w g'] split: option.splits)

lemma guess_ran:
  "ran (snd (guessPreReleaseTag d g w))
     = ran w @ [''npm view '' @ js_str (ctx_name (ctx w)) @ '' dist-tags --json'']"
proof -
  obtain tags w1 where t: "getRegistryPreReleaseTags d g w = (tags, w1)"
    by (cases "getRegistryPreReleaseTags d g w")
  with tags_ran(1)[of d g w] have "ran w1 = ran w @ [''npm view '' @ js_str (ctx_name (ctx w)) @ '' dist-tags --json'']"
    by simp
  with t show ?thesis
    by (simp add: guessPreReleaseTag_def split: option.splits)
qed

lemma resolveTag_ran:
  "set (ran_since w (snd (resolveTag d opts g v w)))
     \<subseteq> {''npm view '' @ js_str (ctx_name (ctx w)) @ '' dist-tags --json''}"
  by (simp add: resolveTag_def Let_def ran_since_def guess_ran split: option.splits)

lemma resolved_any_mode: "resolved d opts g v w = resolved d opts g' v w"
  by (simp add: resolved_def resolveTag_any_mode[of d opts g _ w g'] split: option.splits)

lemma resolved_ran:
  "set (ran_since w (snd (resolved d opts g v w)))
     \<subseteq> {''npm view '' @ js_str (ctx_name (ctx w)) @ '' dist-tags --json''}"
  using resolveTag_ran[of w d opts g "Some v"]
  by (simp add: resolved_def ran_since_def split: option.splits)

lemma bump_logs:
  "exec_log (bump d opts g v w)
     = exec_log (snd (resolved d opts g v w)) @ [''npm version '' @ v @ '' --no-git-tag-version'']"
  "isDryRun g \<Longrightarrow> ran (bump d opts g v w) = ran (snd (resolved d opts g v w))"
  "\<not> isDryRun g \<Longrightarrow> ran (bump d opts g v w)
     = ran (snd (resolved d opts g v w)) @ [''npm version '' @ v @ '' --no-git-tag-version'']"
  by (simp_all add: bump_def resolved_def exec_def split: prod.splits sum.splits option.splits)

section \<open>The flag isReleased\<close>

text \<open>
  Claim C7: \<open>init\<close> and \<open>bump\<close> never change \<open>isReleased\<close>; \<open>publish\<close> and \<open>release\<close>,
  when they return, never turn it from true to false, and turn it from false to true
  only when they resolve and the last command the shell ran for them, an \<open>npm publish\<close>,
  succeeded.
\<close>

theorem isReleased_only_after_publish:
  "isReleased (snd (init d opts g m race w)) = isReleased w
   \<and> isReleased (bump d opts g version w) = isReleased w
   \<and> (publish d opts g cb otps otp w = Some (r, w') \<longrightarrow>
        (isReleased w \<longrightarrow> isReleased w')
        \<and> (isReleased w' \<and> \<not> isReleased w \<longrightarrow> r = Inr () \<and> publish_succeeded d w w'))
   \<and> (release d opts g confirmed otps w = Some (r, w') \<longrightarrow>
        (isReleased w \<longrightarrow> isReleased w')
        \<and> (isReleased w' \<and> \<not> isReleased w \<longrightarrow> r = Inr () \<and> publish_succeeded d w w'))"
proof -
  have p: "(isReleased w \<longrightarrow> isReleased w')
        \<and> (isReleased w' \<and> \<not> isReleased w \<longrightarrow> r = Inr () \<and> publish_succeeded d w w')"
    if "publish d opts g cb otps otp w = Some (r, w')" for cb otp
  proof -
    from publish_trace[OF that] obtain cmds where "publish_run d g w r w' cmds" ..
    then show ?thesis by (rule publish_run_flag)
  qed
  have "(isReleased w \<longrightarrow> isReleased w')
        \<and> (isReleased w' \<and> \<not> isReleased w \<longrightarrow> r = Inr () \<and> publish_succeeded d w w')"
    if "release d opts g confirmed otps w = Some (r, w')"
    using release_cases[OF that] p by blast
  with p show ?thesis by simp
qed

theorem isReleased_only_after_publish_witness:
  "release (example_deps sh_succeeds) example_options live_ci True [] example_world
     = Some (Inr (), example_world\<lparr>isReleased := True,
                exec_log := [''npm publish . --tag latest   ''],
                ran := [''npm publish . --tag latest   '']\<rparr>)
   \<and> publish_succeeded (example_deps sh_succeeds) example_world
        (example_world\<lparr>isReleased := True, exec_log := [''npm publish . --tag latest   ''],
                ran := [''npm publish . --tag latest   '']\<rparr>)
   \<and> release (example_deps (sh_fails ''npm ERR! code E403'')) example_options live_ci True []
         example_world
     = Some (Inl (ExecError ''npm ERR! code E403''),
             example_world\<lparr>exec_log := [''npm publish . --tag latest   ''],
                ran := [''npm publish . --tag latest   '']\<rparr>)"
  using isReleased_only_after_publish[where d = "example_deps sh_succeeds" and opts = example_options
      and g = live_ci and w = example_world and r = "Inr ()" and confirmed = True and otps = "[]"
      and w' = "example_world\<lparr>isReleased := True, exec_log := [''npm publish . --tag latest   ''],
                ran := [''npm publish . --tag latest   '']\<rparr>"]
  by (simp add: release_def step_def publish.simps publish_attempt_def exec_def
      publish_command_def example_deps_def example_options_def example_world_def live_ci_def
      sh_succeeds_def sh_fails_def nonempty_def DEFAULT_TAG_def)

section \<open>Dry-run mode\<close>

lemma release_dry_run_trace:
  assumes "isDryRun g" and "release d opts g confirmed otps w = Some (r, w')"
  shows "logged_since w w' = ran_since w w'
         \<and> (\<forall>c \<in> set (ran_since w w'). prefix ''npm publish '' c \<and> suffix ''--dry-run'' c)
         \<and> (ctx_private (ctx w) \<longrightarrow> isReleased w' = isReleased w)"
proof -
  from release_cases[OF assms(2)] show ?thesis
  proof
    assume "r = Inr () \<and> w' = w"
    then show ?thesis by (simp add: logged_since_def ran_since_def)
  next
    assume "publish d opts g (\<not> isCI g) otps (opt_otp opts) w = Some (r, w')"
    from publish_trace[OF this] obtain cmds where "publish_run d g w r w' cmds" ..
    then have "exec_log w' = exec_log w @ cmds" "ran w' = ran w @ cmds"
      "\<forall>c \<in> set cmds. publish_cmd_ok g c" "ctx_private (ctx w) \<longrightarrow> cmds = []"
      "if cmds \<noteq> [] \<and> \<not> isl (sh d (butlast (ran w')) (last (ran w')))
       then r = Inr () \<and> isReleased w' else isReleased w' = isReleased w"
      unfolding publish_run_def by blast+
    with assms(1) show ?thesis
      by (auto simp: logged_since_def ran_since_def publish_cmd_ok_def)
  qed
qed

lemma release_publishes:
  assumes "opt_publish opts" and "isCI g \<or> confirmed" and "ctx_name (ctx w) = Some name"
    and "\<not> ctx_private (ctx w)"
    and "\<not> isl (sh d (ran w) (publish_command opts g name (opt_otp opts) w))"
  shows "\<exists>w'. release d opts g confirmed otps w = Some (Inr (), w') \<and> isReleased w'"
proof -
  have "publish_attempt d opts g (\<not> isCI g) (opt_otp opts) w
          = Settled (Inr ()) (w\<lparr>exec_log := exec_log w @ [publish_command opts g name (opt_otp opts) w],
               ran := ran w @ [publish_command opts g name (opt_otp opts) w], isReleased := True\<rparr>)"
  proof -
    from assms(5) obtain out where
      "sh d (ran w) (publish_command opts g name (opt_otp opts) w) = Inr out"
      by (cases "sh d (ran w) (publish_command opts g name (opt_otp opts) w)") auto
    then show ?thesis
      unfolding publish_attempt_named[OF assms(3) assms(4)] by (simp add: Let_def)
  qed
  then have "publish d opts g (\<not> isCI g) otps (opt_otp opts) w
          = Some (Inr (), w\<lparr>exec_log := exec_log w @ [publish_command opts g name (opt_otp opts) w],
               ran := ran w @ [publish_command opts g name (opt_otp opts) w], isReleased := True\<rparr>)"
    by (simp add: publish.simps)
  with assms(1,2) show ?thesis
    by (auto simp: release_def step_def)
qed

text \<open>
  Claim C5, as it stands, fails for the npm plugin: in dry-run mode \<open>release\<close> of a
  private package resolves and leaves \<open>isReleased\<close> false; \<open>release\<close> of a public one
  runs \<open>npm publish ... --dry-run\<close> for real and, when that fails, is rejected with
  \<open>isReleased\<close> false; and the exec log of a dry run differs from that of a live run.
\<close>

theorem dry_run_private_counterexample:
  "isDryRun dry_ci
   \<and> release (example_deps sh_succeeds) example_options dry_ci True [] private_world
       = Some (Inr (), warn ''Skip publish: package is private.'' private_world)
   \<and> \<not> isReleased (warn ''Skip publish: package is private.'' private_world)
   \<and> release (example_deps (sh_fails ''npm ERR! code E403'')) example_options dry_ci True []
         example_world
       = Some (Inl (ExecError ''npm ERR! code E403''),
               example_world\<lparr>exec_log := [''npm publish . --tag latest   --dry-run''],
                  ran := [''npm publish . --tag latest   --dry-run'']\<rparr>)
   \<and> exec_log (snd (the (release (example_deps sh_succeeds) example_options dry_ci True []
                              example_world)))
       \<noteq> exec_log (snd (the (release (example_deps sh_succeeds) example_options live_ci True []
                              example_world)))"
  by (simp add: release_def step_def publish.simps publish_attempt_def exec_def
      publish_command_def example_deps_def example_options_def example_world_def live_ci_def
      dry_ci_def private_world_def sh_succeeds_def sh_fails_def nonempty_def DEFAULT_TAG_def
      warn_def)

text \<open>
  Claim C5, amended, for the npm plugin in dry-run mode: \<open>bump\<close> runs no command but,
  at most, the read-only \<open>npm view\<close>, and its exec log is that of a live run, ending with
  the \<open>npm version\<close> command that was not run; the publish command is the one of a live
  run followed by \<open>--dry-run\<close>; every command \<open>release\<close> hands to the shell is such a
  publish command and is run; \<open>release\<close> turns \<open>isReleased\<close> to true only when it
  resolves after such a command succeeded, never for a private package; and it does turn
  it to true when publishing is enabled and confirmed, the package has a name and is not
  private, and the command succeeds.
\<close>

theorem dry_run_npm:
  assumes "isDryRun g"
  shows "set (ran_since w (bump d opts g version w))
           \<subseteq> {''npm view '' @ js_str (ctx_name (ctx w)) @ '' dist-tags --json''}
         \<and> exec_log (bump d opts g version w) = exec_log (bump d opts (g\<lparr>isDryRun := False\<rparr>) version w)
         \<and> last (exec_log (bump d opts g version w)) = ''npm version '' @ version @ '' --no-git-tag-version''
         \<and> publish_command opts g name otp w
             = publish_command opts (g\<lparr>isDryRun := False\<rparr>) name otp w @ ''--dry-run''
         \<and> (release d opts g confirmed otps w = Some (r, w') \<longrightarrow>
               logged_since w w' = ran_since w w'
               \<and> (\<forall>c \<in> set (ran_since w w'). prefix ''npm publish '' c \<and> suffix ''--dry-run'' c)
               \<and> (isReleased w' \<and> \<not> isReleased w \<longrightarrow> r = Inr () \<and> publish_succeeded d w w')
               \<and> (ctx_private (ctx w) \<longrightarrow> isReleased w' = isReleased w))
         \<and> (opt_publish opts \<and> (isCI g \<or> confirmed) \<and> ctx_name (ctx w) = Some name
              \<and> \<not> ctx_private (ctx w)
              \<and> \<not> isl (sh d (ran w) (publish_command opts g name (opt_otp opts) w)) \<longrightarrow>
               (\<exists>w'. release d opts g confirmed otps w = Some (Inr (), w') \<and> isReleased w'))"
proof -
  have a: "set (ran_since w (bump d opts g version w))
           \<subseteq> {''npm view '' @ js_str (ctx_name (ctx w)) @ '' dist-tags --json''}"
    using assms resolved_ran[of w d opts g version] by (simp add: bump_logs(2) ran_since_def)
  have b: "exec_log (bump d opts g version w) = exec_log (bump d opts (g\<lparr>isDryRun := False\<rparr>) version w)"
    by (simp add: bump_logs(1) resolved_any_mode[of d opts g version w "g\<lparr>isDryRun := False\<rparr>"])
  have c: "last (exec_log (bump d opts g version w)) = ''npm version '' @ version @ '' --no-git-tag-version''"
    by (simp add: bump_logs(1))
  have "g = g\<lparr>isDryRun := True\<rparr>" using assms by simp
  then have e: "publish_command opts g name otp w
             = publish_command opts (g\<lparr>isDryRun := False\<rparr>) name otp w @ ''--dry-run''"
    using publish_command_dry_run[of opts g name otp w] by simp
  have f: "logged_since w w' = ran_since w w'
               \<and> (\<forall>c \<in> set (ran_since w w'). prefix ''npm publish '' c \<and> suffix ''--dry-run'' c)
               \<and> (isReleased w' \<and> \<not> isReleased w \<longrightarrow> r = Inr () \<and> publish_succeeded d w w')
               \<and> (ctx_private (ctx w) \<longrightarrow> isReleased w' = isReleased w)"
    if rel: "release d opts g confirmed otps w = Some (r, w')"
  proof -
    have "isReleased w' \<and> \<not> isReleased w \<longrightarrow> r = Inr () \<and> publish_succeeded d w w'"
      using release_cases[OF rel]
    proof
      assume "r = Inr () \<and> w' = w" then show ?thesis by simp
    next
      assume "publish d opts g (\<not> isCI g) otps (opt_otp opts) w = Some (r, w')"
      from publish_trace[OF this] obtain cmds where "publish_run d g w r w' cmds" ..
      from publish_run_flag[OF this] show ?thesis by simp
    qed
    with release_dry_run_trace[OF assms rel] show ?thesis by simp
  qed
  have h: "\<exists>w'. release d opts g confirmed otps w = Some (Inr (), w') \<and> isReleased w'"
    if "opt_publish opts \<and> (isCI g \<or> confirmed) \<and> ctx_name (ctx w) = Some name
              \<and> \<not> ctx_private (ctx w)
              \<and> \<not> isl (sh d (ran w) (publish_command opts g name (opt_otp opts) w))"
    using that release_publishes[of opts g confirmed w name d otps] by blast
  from a b c e f h show ?thesis by blast
qed

theorem dry_run_npm_witness:
  "isDryRun dry_ci
   \<and> exec_log (bump (example_deps sh_succeeds) example_options dry_ci ''2.0.2'' example_world)
       = exec_log (bump (example_deps sh_succeeds) example_options (dry_ci\<lparr>isDryRun := False\<rparr>)
                     ''2.0.2'' example_world)
   \<and> last (exec_log (bump (example_deps sh_succeeds) example_options dry_ci ''2.0.2'' example_world))
       = ''npm version '' @ ''2.0.2'' @ '' --no-git-tag-version''
   \<and> publish_command example_options dry_ci ''pkg'' None example_world
       = publish_command example_options (dry_ci\<lparr>isDryRun := False\<rparr>) ''pkg'' None example_world
           @ ''--dry-run''
   \<and> (\<exists>w'. release (example_deps sh_succeeds) example_options dry_ci True [] example_world
               = Some (Inr (), w') \<and> isReleased w')"
proof -
  have "isDryRun dry_ci"
    by (simp add: dry_ci_def)
  moreover have "opt_publish example_options \<and> (isCI dry_ci \<or> True)
      \<and> ctx_name (ctx example_world) = Some ''pkg'' \<and> \<not> ctx_private (ctx example_world)
      \<and> \<not> isl (sh (example_deps sh_succeeds) (ran example_world)
                  (publish_command example_options dry_ci ''pkg'' (opt_otp example_options)
                     example_world))"
    by (simp add: example_options_def example_world_def example_deps_def sh_succeeds_def)
  ultimately show ?thesis
    using dry_run_npm[where g = dry_ci and d = "example_deps sh_succeeds" and opts = example_options
      and version = "''2.0.2''" and w = example_world and name = "''pkg''" and confirmed = True
      and otps = "[]" and otp = None and r = "Inr ()" and w' = example_world]
    by blast
qed

section \<open>The timeout of init\<close>

text \<open>
  Claim C8: when publishing is enabled, the package is not private and the checks are not
  skipped, an \<open>init\<close> whose validations have not all settled when the timer of
  \<open>REGISTRY_TIMEOUT\<close> milliseconds fires fails with the rejection of \<open>rejectAfter\<close>.
  That error is not one an \<open>init\<close> whose validations settle first can fail with, whatever
  the validations return: such an \<open>init\<close> fails with \<open>npmTimeoutError\<close> when the registry
  check returns false and with \<open>npmAuthError\<close> when the authentication check does, and
  the rejection of \<open>rejectAfter\<close> is neither.
\<close>

theorem init_timeout:
  assumes "opt_publish opts" and "\<not> man_private m" and "\<not> opt_skipChecks opts"
  shows "fst (init d opts g m Timer w) = Inl (RejectedAfter REGISTRY_TIMEOUT)
         \<and> (\<forall>ms. fst (init d opts g m Validations w) \<noteq> Inl (RejectedAfter ms))
         \<and> (fst (validations d opts g (setManifest m w)) = (up, auth, latest) \<longrightarrow>
              (\<not> up \<longrightarrow> fst (init d opts g m Validations w) = Inl (NpmTimeoutError REGISTRY_TIMEOUT))
              \<and> (up \<and> \<not> auth \<longrightarrow> fst (init d opts g m Validations w) = Inl NpmAuthError))
         \<and> (\<forall>n. RejectedAfter REGISTRY_TIMEOUT \<noteq> NpmTimeoutError n)
         \<and> RejectedAfter REGISTRY_TIMEOUT \<noteq> NpmAuthError"
proof -
  obtain u a l w1 where v: "validations d opts g (setManifest m w) = ((u, a, l), w1)"
    by (cases "validations d opts g (setManifest m w)") auto
  from assms have "fst (init d opts g m Timer w) = Inl (RejectedAfter REGISTRY_TIMEOUT)"
    by (simp add: init_def Let_def)
  moreover from assms v have "\<forall>ms. fst (init d opts g m Validations w) \<noteq> Inl (RejectedAfter ms)"
    by (simp add: init_def Let_def split: option.splits bool.splits)
  moreover from assms v have "fst (validations d opts g (setManifest m w)) = (up, auth, latest) \<longrightarrow>
              (\<not> up \<longrightarrow> fst (init d opts g m Validations w) = Inl (NpmTimeoutError REGISTRY_TIMEOUT))
              \<and> (up \<and> \<not> auth \<longrightarrow> fst (init d opts g m Validations w) = Inl NpmAuthError)"
    by (auto simp: init_def Let_def)
  ultimately show ?thesis by simp
qed

theorem init_timeout_witness:
  "fst (init (example_deps sh_succeeds) example_options live_ci example_manifest Timer example_world)
     = Inl (RejectedAfter 10000)
   \<and> fst (init (example_deps (sh_fails ''ECONNREFUSED'')) example_options live_ci example_manifest
            Validations example_world) = Inl (NpmTimeoutError 10000)
   \<and> fst (init (example_deps sh_whoami_404) example_options live_ci example_manifest
            Validations example_world) = Inl NpmAuthError"
  using init_timeout[where opts = example_options and m = example_manifest
      and d = "example_deps sh_succeeds" and g = live_ci and w = example_world]
    init_timeout[where opts = example_options and m = example_manifest
      and d = "example_deps (sh_fails ''ECONNREFUSED'')" and g = live_ci and w = example_world
      and up = False and auth = False and latest = None]
    init_timeout[where opts = example_options and m = example_manifest
      and d = "example_deps sh_whoami_404" and g = live_ci and w = example_world
      and up = True and auth = False and latest = "Some ''1.0.0''"]
  by (simp add: example_options_def example_manifest_def REGISTRY_TIMEOUT_def validations_def
      isRegistryUp_def isAuthenticated_def getLatestRegistryVersion_def resolveTag_def exec_def
      example_deps_def example_parse_def sh_fails_def sh_whoami_404_def whoami_404_def
      example_world_def live_ci_def setManifest_def registryArg_def getRegistry_def nonempty_def
      NPM_DEFAULT_REGISTRY_def getLatestVersion_def getName_def js_str_def DEFAULT_TAG_def
      ping_unsupported_def code_E40x_def Let_def)

section \<open>Registries without ping or whoami\<close>








section \<open>Private packages\<close>

text \<open>
  For a private package that has a name, \<open>publish\<close> logs the warning and resolves, and
  \<open>release\<close> resolves, without a command handed to the shell and with \<open>isReleased\<close> as
  it was.
\<close>

lemma release_private_named:
  assumes "ctx_name (ctx w) = Some n" and "ctx_private (ctx w)"
    and "release d opts g confirmed otps w = Some (r, w')"
  shows "r = Inr () \<and> isReleased w' = isReleased w \<and> exec_log w' = exec_log w \<and> ran w' = ran w"
  using release_cases[OF assms(3)] publish_private_named[OF assms(1,2)] by auto

text \<open>
  Claim C10 fails on the code for a private package whose manifest has no name:
  \<open>init\<close> records \<open>private\<close> and no name and returns; \<open>publish\<close> then throws the
  \<open>TypeError\<close> of \<open>name.startsWith\<close> before it tests \<open>private\<close>, and \<open>release\<close> is
  rejected with it.
\<close>

theorem publish_private_without_name:
  "snd (init (example_deps sh_succeeds) example_options live_ci nameless_private_manifest
          Validations example_world) = nameless_private_world
   \<and> ctx_private (ctx nameless_private_world)
   \<and> publish (example_deps sh_succeeds) example_options live_ci False [] None
        nameless_private_world = Some (Inl TypeError, nameless_private_world)
   \<and> release (example_deps sh_succeeds) example_options live_ci True [] nameless_private_world
       = Some (Inl TypeError, nameless_private_world)"
  by (simp add: init_def setManifest_def nameless_private_manifest_def nameless_private_world_def
      example_options_def example_world_def release_def step_def live_ci_def publish.simps
      publish_attempt_def)

theorem publish_private_without_name_witness:
  "fst (the (release (example_deps sh_succeeds) example_options live_ci True []
               nameless_private_world)) = Inl TypeError"
  using publish_private_without_name by simp

end
